theory Spec2Isabelle
  imports Complex_Main "HOL-Library.AList" "HOL-Library.Sublist"
begin

section \<open>StreetViewDownloader: a shallow embedding\<close>

text \<open>
  The development follows \<^verbatim>\<open>src/src/streetscope/download/streetview_downloader.py\<close>.
  Python methods whose names start with an underscore keep their names without it
  (\<^verbatim>\<open>_read_pids\<close> is \<open>read_pids\<close>, \<^verbatim>\<open>_check_already\<close> is \<open>check_already\<close>, and so on).
  Exceptions are values of the type \<open>error\<close>; a method that can raise returns its result
  together with the world it leaves behind, because what was written before the raise stays
  written.
\<close>

subsection \<open>Exceptions\<close>

datatype error =
    ValueError
  | ZeroDivisionError
  | IndexError
  | FileExistsError
  | FileNotFoundError
  | IsADirectoryError
  | NotADirectoryError
  | CvError
  | FetchError

subsection \<open>Python strings\<close>

text \<open>\<^verbatim>\<open>s.split(sep)\<close> for a separator of one character: the result is never empty.\<close>

fun py_split :: "char \<Rightarrow> string \<Rightarrow> string list" where
  "py_split sep [] = [[]]"
| "py_split sep (c # cs) =
     (if c = sep then [] # py_split sep cs
      else (case py_split sep cs of
              [] \<Rightarrow> [[c]]
            | w # ws \<Rightarrow> (c # w) # ws))"

text \<open>
  \<^verbatim>\<open>s.replace(old, new)\<close>: every occurrence of \<open>old\<close>, found from left to right without
  overlap, becomes \<open>new\<close>. For the empty \<open>old\<close> Python puts \<open>new\<close> before every character
  and at the end.
\<close>

fun replace_ne :: "string \<Rightarrow> string \<Rightarrow> string \<Rightarrow> string" where
  "replace_ne old new [] = []"
| "replace_ne old new (c # cs) =
     (if prefix old (c # cs)
      then new @ replace_ne old new (drop (length old - 1) cs)
      else c # replace_ne old new cs)"

definition py_replace :: "string \<Rightarrow> string \<Rightarrow> string \<Rightarrow> string" where
  "py_replace s old new =
     (if old = [] then new @ concat (map (\<lambda>c. c # new) s) else replace_ne old new s)"

text \<open>\<^verbatim>\<open>'%s' % n\<close> and \<^verbatim>\<open>str(n)\<close> for an integer: decimal digits, a minus sign below zero.\<close>

definition digit_char :: "nat \<Rightarrow> char" where
  "digit_char d = char_of (48 + d)"

fun str_nat :: "nat \<Rightarrow> string" where
  "str_nat n = (if n < 10 then [digit_char n] else str_nat (n div 10) @ [digit_char (n mod 10)])"

declare str_nat.simps [simp del]

definition str_int :: "int \<Rightarrow> string" where
  "str_int i = (if i < 0 then CHR ''-'' # str_nat (nat (- i)) else str_nat (nat i))"

text \<open>
  \<^verbatim>\<open>int(x)\<close> of a float truncates toward zero. The floats of the source (\<open>2.25\<close>, and the
  integer \<open>4\<close> promoted by the multiplication) are modelled by exact rationals; the products
  the code forms are exact in binary floating point for every size factor below \<open>2^50\<close>.
\<close>

definition py_int :: "rat \<Rightarrow> int" where
  "py_int r = (if 0 \<le> r then \<lfloor>r\<rfloor> else \<lceil>r\<rceil>)"

subsection \<open>Paths and the file system\<close>

text \<open>\<^verbatim>\<open>os.path.join(a, b)\<close> on POSIX, for two arguments.\<close>

definition path_join :: "string \<Rightarrow> string \<Rightarrow> string" where
  "path_join a b =
     (if b \<noteq> [] \<and> hd b = CHR ''/'' then b
      else if a = [] \<or> last a = CHR ''/'' then a @ b
      else a @ ''/'' @ b)"

text \<open>
  Images are not computed here: \<^verbatim>\<open>ImageTransformer\<close> and \<^verbatim>\<open>ImageTool\<close> are not among the
  sources. An image is represented by the request that produced it, so that what the code
  asks of the transformer can be read off the files it writes.
\<close>

datatype image =
    Stitched string int int int bool "string list"
      \<comment> \<open>identifier, zoom, h\_tiles, v\_tiles, crop flag, the tiles in row-major order\<close>
  | Fisheye "image option"
  | Perspective "image option" int int int int int
      \<comment> \<open>source, FOV, theta, phi, height, width\<close>

text \<open>
  A file is the sequence of pieces written to it: \<^verbatim>\<open>fw.write(s)\<close> appends a piece of text,
  \<^verbatim>\<open>cv2.imwrite\<close> replaces the file by one encoded image.
\<close>

datatype piece = Chars string | Pixels image

datatype node = Dir | File "piece list"

text \<open>
  The file system maps path strings to nodes, in creation order. The paths of one run are
  all built by \<open>path_join\<close> from the same roots, so a path is identified with its string.
  A directory exists when the file system holds it; the root and the working directory
  (the parent of a path without a slash) always exist. Permissions are not modelled.
\<close>

type_synonym filesystem = "(string \<times> node) list"

text \<open>\<^verbatim>\<open>os.path.split(p)\<close> on POSIX, and the two halves of its result.\<close>

definition path_split :: "string \<Rightarrow> string \<times> string" where
  "path_split p =
     (let tail = rev (takeWhile (\<lambda>c. c \<noteq> CHR ''/'') (rev p));
          head = take (length p - length tail) p
      in (if head \<noteq> [] \<and> \<not> list_all (\<lambda>c. c = CHR ''/'') head
          then rev (dropWhile (\<lambda>c. c = CHR ''/'') (rev head))
          else head, tail))"

definition dirname :: "string \<Rightarrow> string" where
  "dirname p = fst (path_split p)"

definition basename :: "string \<Rightarrow> string" where
  "basename p = snd (path_split p)"

definition is_root :: "string \<Rightarrow> bool" where
  "is_root p = (p \<noteq> [] \<and> list_all (\<lambda>c. c = CHR ''/'') p)"

definition path_exists :: "filesystem \<Rightarrow> string \<Rightarrow> bool" where
  "path_exists fsys p = (is_root p \<or> map_of fsys p \<noteq> None)"

definition isdir :: "filesystem \<Rightarrow> string \<Rightarrow> bool" where
  "isdir fsys p = (is_root p \<or> map_of fsys p = Some Dir)"

text \<open>
  What the system answers when the directory that should hold \<open>p\<close> is not there:
  \<open>FileNotFoundError\<close> when nothing has that name, \<open>NotADirectoryError\<close> when a file has.
\<close>

definition parent_error :: "filesystem \<Rightarrow> string \<Rightarrow> error option" where
  "parent_error fsys p =
     (let d = dirname p
      in if d = [] \<or> isdir fsys d then None
         else if path_exists fsys d then Some NotADirectoryError
         else Some FileNotFoundError)"

definition child_of :: "string \<Rightarrow> string \<Rightarrow> string option" where
  "child_of d p =
     (let pre = (if d = [] \<or> last d = CHR ''/'' then d else d @ ''/'');
          r = drop (length pre) p
      in if prefix pre p \<and> r \<noteq> [] \<and> CHR ''/'' \<notin> set r then Some r else None)"

text \<open>
  \<^verbatim>\<open>os.listdir(d)\<close>: the names directly under \<open>d\<close>, here in creation order (Python promises
  no order). Both places that call it do so on a directory that \<^verbatim>\<open>os.makedirs\<close> has created
  earlier in the same call, so it does not raise.
\<close>

definition listdir :: "filesystem \<Rightarrow> string \<Rightarrow> string list" where
  "listdir fsys d = List.map_filter (\<lambda>(p, n). child_of d p) fsys"

text \<open>\<^verbatim>\<open>os.mkdir(name)\<close>; the system ignores slashes at the end of the name.\<close>

definition mkdir :: "string \<Rightarrow> filesystem \<Rightarrow> error + filesystem" where
  "mkdir name fsys =
     (let p = (if is_root name then name else rev (dropWhile (\<lambda>c. c = CHR ''/'') (rev name)))
      in if p = [] then Inl FileNotFoundError
         else if path_exists fsys p then Inl FileExistsError
         else (case parent_error fsys p of
                 Some e \<Rightarrow> Inl e
               | None \<Rightarrow> Inr (fsys @ [(p, Dir)])))"

text \<open>
  \<^verbatim>\<open>os.makedirs(name, exist_ok=True)\<close>, as the standard library writes it: the missing
  parent is made first, by the same function, then \<^verbatim>\<open>mkdir(name)\<close> is tried and its error is
  let go when \<open>name\<close> is a directory already. The library also passes over a
  \<open>FileExistsError\<close> of the recursive call, a guard against another thread making the parent
  in between; in a world with one thread the recursive call is made only for a parent that
  does not exist and cannot raise it. An error leaves the file system as it was.
\<close>

definition mkdir_exist_ok :: "string \<Rightarrow> filesystem \<Rightarrow> error + filesystem" where
  "mkdir_exist_ok name fsys =
     (case mkdir name fsys of
        Inl e \<Rightarrow> if isdir fsys name then Inr fsys else Inl e
      | Inr fs1 \<Rightarrow> Inr fs1)"

definition makedirs_split :: "string \<Rightarrow> string \<times> string" where
  "makedirs_split name =
     (case path_split name of
        (head, tail) \<Rightarrow> if tail = [] then path_split head else (head, tail))"

function makedirs :: "string \<Rightarrow> filesystem \<Rightarrow> error + filesystem" where
  "makedirs name fsys =
     (case makedirs_split name of
        (head, tail) \<Rightarrow>
          if head \<noteq> [] \<and> tail \<noteq> [] \<and> \<not> path_exists fsys head
          then (case makedirs head fsys of
                  Inl e \<Rightarrow> Inl e
                | Inr fs1 \<Rightarrow> if tail = ''.'' then Inr fs1 else mkdir_exist_ok name fs1)
          else mkdir_exist_ok name fsys)"
  by pat_completeness auto
termination
proof (relation "measure (\<lambda>(name, fsys). length name)")
  show "wf (measure (\<lambda>(name :: string, fsys :: filesystem). length name))"
    by simp
next
  fix name :: string and fsys :: filesystem and head tail :: string
  assume ht: "(head, tail) = makedirs_split name"
    and c: "head \<noteq> [] \<and> tail \<noteq> [] \<and> \<not> path_exists fsys head"
  have len: "length (fst (path_split p)) + length (snd (path_split p)) \<le> length p" for p
  proof -
    let ?tail = "rev (takeWhile (\<lambda>c. c \<noteq> CHR ''/'') (rev p))"
    let ?head = "take (length p - length ?tail) p"
    have t: "length ?tail \<le> length p"
      using length_takeWhile_le[of "\<lambda>c. c \<noteq> CHR ''/''" "rev p"] by simp
    have d: "length (dropWhile (\<lambda>c. c = CHR ''/'') (rev ?head)) \<le> length ?head"
      using length_dropWhile_le[of "\<lambda>c. c = CHR ''/''" "rev ?head"] by simp
    have h: "length ?head = length p - length ?tail"
      by simp
    show ?thesis
      using t d h unfolding path_split_def Let_def
      by (auto simp del: length_take)
  qed
  have "length head + length tail \<le> length name"
  proof (cases "snd (path_split name) = []")
    case True
    with ht have "path_split (fst (path_split name)) = (head, tail)"
      by (simp add: makedirs_split_def split: prod.splits)
    then have "length head + length tail \<le> length (fst (path_split name))"
      using len[of "fst (path_split name)"] by simp
    moreover have "length (fst (path_split name)) \<le> length name"
      using len[of name] by simp
    ultimately show ?thesis by simp
  next
    case False
    with ht have "path_split name = (head, tail)"
      by (simp add: makedirs_split_def split: prod.splits)
    then show ?thesis
      using len[of name] by simp
  qed
  with c have "length head < length name"
    by (cases tail) auto
  then show "((head, fsys), name, fsys) \<in> measure (\<lambda>(name, fsys). length name)"
    by simp
qed

declare makedirs.simps [simp del]

text \<open>\<^verbatim>\<open>cv2.imread(p, cv2.IMREAD_COLOR)\<close>: \<open>None\<close> when the file is missing or is not an image.\<close>

definition imread :: "filesystem \<Rightarrow> string \<Rightarrow> image option" where
  "imread fsys p =
     (case map_of fsys p of
        Some (File [Pixels img]) \<Rightarrow> Some img
      | _ \<Rightarrow> None)"

text \<open>
  \<^verbatim>\<open>open(p, 'a+')\<close>: the exception it raises, if any. The file is created when it is missing,
  but its directory is not.
\<close>

definition open_error :: "filesystem \<Rightarrow> string \<Rightarrow> error option" where
  "open_error fsys p =
     (case parent_error fsys p of
        Some e \<Rightarrow> Some e
      | None \<Rightarrow>
          if basename p \<in> set [[], ''.'', ''..''] \<or> map_of fsys p = Some Dir
          then Some IsADirectoryError else None)"

text \<open>The pieces of the file at a path; none for a path that holds no file.\<close>

definition pieces_at :: "filesystem \<Rightarrow> string \<Rightarrow> piece list" where
  "pieces_at fsys p = (case map_of fsys p of Some (File ps) \<Rightarrow> ps | _ \<Rightarrow> [])"

subsection \<open>The world of one run\<close>

text \<open>
  \<^verbatim>\<open>ImageTool.dwl_multiple\<close> is called with the batch (twice), the pool width, the zoom, the
  tile counts, the panorama directory, the sampled user agents and the two flags.
\<close>

record dwl_args =
  dwl_pids :: "string list"
  dwl_nthreads :: int
  dwl_zoom :: int
  dwl_v_tiles :: int
  dwl_h_tiles :: int
  dwl_out :: string
  dwl_UAs :: "string list"
  dwl_cropped :: bool
  dwl_full :: bool

text \<open>
  The calls the scheduler makes to collaborators outside the file, in the order it makes
  them: a batch handed to \<^verbatim>\<open>dwl_multiple\<close>, and a \<^verbatim>\<open>time.sleep\<close> of so many tenths of a second.
\<close>

datatype call = Dwl dwl_args | Sleep nat

text \<open>
  The random source is the sequence of raw draws of the generator and the number of draws
  consumed so far; \<open>randbelow n\<close> is the next draw reduced below \<open>n\<close>.
\<close>

record world =
  fs :: filesystem
  rng :: "nat \<Rightarrow> nat"
  drawn :: nat
  calls :: "call list"

definition randbelow :: "nat \<Rightarrow> world \<Rightarrow> nat \<times> world" where
  "randbelow n w = (rng w (drawn w) mod n, w\<lparr>drawn := Suc (drawn w)\<rparr>)"

text \<open>\<^verbatim>\<open>random.randint(a, b)\<close>, for \<open>a \<le> b\<close>.\<close>

definition randint :: "nat \<Rightarrow> nat \<Rightarrow> world \<Rightarrow> nat \<times> world" where
  "randint a b w = (case randbelow (b - a + 1) w of (r, w') \<Rightarrow> (a + r, w'))"

text \<open>
  \<^verbatim>\<open>random.sample(population, k)\<close>: a \<open>ValueError\<close> unless \<open>0 \<le> k \<le> len(population)\<close>;
  otherwise \<open>k\<close> selections from a copy of the population, each selected position being
  overwritten by the last live element, so that no position is selected twice. (CPython
  selects this way in small populations and by rejection in large ones; either way the
  result is the elements at \<open>k\<close> different positions.)
\<close>

fun sample_loop :: "'a list \<Rightarrow> nat \<Rightarrow> world \<Rightarrow> 'a list \<times> world" where
  "sample_loop pool 0 w = ([], w)"
| "sample_loop pool (Suc k) w =
     (case randbelow (length pool) w of
        (j, w1) \<Rightarrow>
          (case sample_loop (butlast (pool[j := last pool])) k w1 of
             (rest, w2) \<Rightarrow> (pool ! j # rest, w2)))"

definition random_sample :: "'a list \<Rightarrow> int \<Rightarrow> world \<Rightarrow> (error + 'a list) \<times> world" where
  "random_sample population k w =
     (if k < 0 \<or> int (length population) < k then (Inl ValueError, w)
      else (case sample_loop population (nat k) w of (r, w') \<Rightarrow> (Inr r, w')))"

subsection \<open>The downloader object and its collaborators\<close>

text \<open>
  The fields of a constructed \<^verbatim>\<open>StreetViewDownloader\<close>. \<open>user_agent\<close> is the pool read
  from \<^verbatim>\<open>UserAgent.csv\<close>, one stripped line per entry (the source wraps each in a
  one-key dictionary).
\<close>

record downloader =
  dir_output :: string
  path_pid :: "string option"
  image_style :: "string list"
  log_path :: string
  nthreads :: int
  user_agent :: "string list"

text \<open>The arguments of \<^verbatim>\<open>download_gsv\<close>; the defaults are \<open>2, 4, 2, False, True\<close>.\<close>

record gsv_args =
  zoom :: int
  h_tiles :: int
  v_tiles :: int
  cropped :: bool
  full :: bool

text \<open>
  A data frame, as far as the code looks at it: its columns, each a name and its cells. The
  cells of the identifier column are strings.
\<close>

type_synonym dataframe = "(string \<times> string list) list"

text \<open>
  What the file does not define is a parameter: \<^verbatim>\<open>pd.read_csv\<close>;
  \<^verbatim>\<open>ImageTool.dwl_multiple\<close>, which either returns or raises and may have written panoramas
  in both cases; and the paths for which the OpenCV build at hand has an encoder, which it
  decides by the extension.
\<close>

record env =
  read_csv :: "string option \<Rightarrow> filesystem \<Rightarrow> error + dataframe"
  dwl_multiple :: "dwl_args \<Rightarrow> filesystem \<Rightarrow> error option \<times> filesystem"
  has_encoder :: "string \<Rightarrow> bool"

text \<open>
  \<^verbatim>\<open>cv2.imwrite(p, img)\<close>: it raises when it finds no encoder for the extension of \<open>p\<close>; it
  returns \<open>False\<close> and writes nothing when the file cannot be opened for writing (its
  directory is missing, or \<open>p\<close> is a directory); otherwise it replaces the file at \<open>p\<close>.
\<close>

definition imwrite :: "env \<Rightarrow> string \<Rightarrow> image \<Rightarrow> filesystem \<Rightarrow> error + filesystem" where
  "imwrite E p img fsys =
     (if \<not> has_encoder E p then Inl CvError
      else if parent_error fsys p \<noteq> None \<or> basename p = [] \<or> map_of fsys p = Some Dir
      then Inr fsys
      else Inr (AList.update p (File [Pixels img]) fsys))"

subsection \<open>Reading the identifiers\<close>

text \<open>\<^verbatim>\<open>Series.unique()\<close>: the values in order of first appearance.\<close>

fun unique_from :: "'a list \<Rightarrow> 'a list \<Rightarrow> 'a list" where
  "unique_from seen [] = []"
| "unique_from seen (x # xs) =
     (if x \<in> set seen then unique_from seen xs else x # unique_from (x # seen) xs)"

definition unique :: "'a list \<Rightarrow> 'a list" where
  "unique xs = unique_from [] xs"

text \<open>\<^verbatim>\<open>pid_df.iloc[:,0]\<close> raises \<open>IndexError\<close> on a frame without columns.\<close>

definition read_pids :: "env \<Rightarrow> downloader \<Rightarrow> world \<Rightarrow> error + string list" where
  "read_pids E c w =
     (case read_csv E (path_pid c) (fs w) of
        Inl e \<Rightarrow> Inl e
      | Inr pid_df \<Rightarrow>
          (case pid_df of
             [] \<Rightarrow> Inl IndexError
           | col # _ \<Rightarrow> Inr (unique (snd col))))"

subsection \<open>The dedup filter\<close>

text \<open>
  \<^verbatim>\<open>_check_already\<close> lists \<^verbatim>\<open>self.dir_output\<close> and keeps the identifiers that are not the
  part before the first dot of one of the names found there.
\<close>

definition check_already :: "downloader \<Rightarrow> world \<Rightarrow> string list \<Rightarrow> string list" where
  "check_already c w all_panoids =
     (let name_r = set (map (\<lambda>name. hd (py_split CHR ''.'' name)) (listdir (fs w) (dir_output c)))
      in filter (\<lambda>pid. pid \<notin> name_r) all_panoids)"

subsection \<open>The failure log\<close>

text \<open>
  \<^verbatim>\<open>_log_write\<close> opens \<^verbatim>\<open>self.log_path\<close> with mode \<^verbatim>\<open>'a+'\<close> (the file is created when
  missing and never truncated; the call raises when the directory of the path is missing or
  the path is a directory) and writes one piece per identifier: the identifier and a
  newline.
\<close>

definition log_write :: "downloader \<Rightarrow> string list \<Rightarrow> filesystem \<Rightarrow> error + filesystem" where
  "log_write c pids fsys =
     (case open_error fsys (log_path c) of
        Some e \<Rightarrow> Inl e
      | None \<Rightarrow>
          Inr (AList.update (log_path c)
                 (File (pieces_at fsys (log_path c) @ map (\<lambda>pid. Chars (pid @ [CHR 0x0A])) pids))
                 fsys))"

subsection \<open>The scheduler loop of \<^verbatim>\<open>download_gsv\<close>\<close>

record counters =
  task_pids :: "string list"
  errors :: int
  img_num :: int

text \<open>
  The \<^verbatim>\<open>else\<close> branch of the loop body: sample the agents (outside the \<^verbatim>\<open>try\<close>), hand the
  pending batch to \<^verbatim>\<open>dwl_multiple\<close>, count \<^verbatim>\<open>self.nthreads\<close> on either side, and on a
  failure sleep and log. \<^verbatim>\<open>task_pids\<close> is emptied afterwards; the identifier at the
  current index is not looked at in this branch. \<^verbatim>\<open>except Exception\<close> catches every value of
  \<open>error\<close>; the lines printed are left out.
\<close>

definition batch_args :: "downloader \<Rightarrow> gsv_args \<Rightarrow> string \<Rightarrow> counters \<Rightarrow> string list \<Rightarrow> dwl_args" where
  "batch_args c a panorama_output st UAs =
     \<lparr>dwl_pids = task_pids st, dwl_nthreads = nthreads c, dwl_zoom = zoom a,
      dwl_v_tiles = v_tiles a, dwl_h_tiles = h_tiles a, dwl_out = panorama_output,
      dwl_UAs = UAs, dwl_cropped = cropped a, dwl_full = full a\<rparr>"

definition dispatch ::
  "env \<Rightarrow> downloader \<Rightarrow> gsv_args \<Rightarrow> string \<Rightarrow> counters \<Rightarrow> world \<Rightarrow> error option \<times> counters \<times> world"
where
  "dispatch E c a panorama_output st w =
     (case random_sample (user_agent c) (nthreads c) w of
        (Inl e, w1) \<Rightarrow> (Some e, st, w1)
      | (Inr UAs, w1) \<Rightarrow>
          (let args = batch_args c a panorama_output st UAs;
               w2 = w1\<lparr>calls := calls w1 @ [Dwl args]\<rparr>
           in case dwl_multiple E args (fs w2) of
                (None, fs3) \<Rightarrow>
                  (None, st\<lparr>img_num := img_num st + nthreads c, task_pids := []\<rparr>, w2\<lparr>fs := fs3\<rparr>)
              | (Some e, fs3) \<Rightarrow>
                  (case randint 1 5 (w2\<lparr>fs := fs3\<rparr>) of
                     (k, w4) \<Rightarrow>
                       (let w5 = w4\<lparr>calls := calls w4 @ [Sleep k]\<rparr>;
                            st5 = st\<lparr>errors := errors st + nthreads c\<rparr>
                        in if log_path c \<noteq> []
                           then (case log_write c (task_pids st) (fs w5) of
                                   Inl e' \<Rightarrow> (Some e', st5, w5)
                                 | Inr fs6 \<Rightarrow> (None, st5\<lparr>task_pids := []\<rparr>, w5\<lparr>fs := fs6\<rparr>))
                           else (None, st5\<lparr>task_pids := []\<rparr>, w5)))))"

text \<open>
  One iteration at index \<open>i\<close>. \<^verbatim>\<open>i % self.nthreads\<close> is evaluated first and raises for a
  zero divisor; Python's remainder takes the sign of the divisor, as \<open>mod\<close> on \<open>int\<close> does.
\<close>

fun loop_body ::
  "env \<Rightarrow> downloader \<Rightarrow> gsv_args \<Rightarrow> string \<Rightarrow> string list \<Rightarrow> nat \<Rightarrow> counters \<Rightarrow> world
     \<Rightarrow> error option \<times> counters \<times> world"
where
  "loop_body E c a panorama_output panoids_rest i st w =
     (if nthreads c = 0 then (Some ZeroDivisionError, st, w)
      else if int i mod nthreads c \<noteq> 0 \<or> i = 0
      then (None, st\<lparr>task_pids := task_pids st @ [panoids_rest ! i]\<rparr>, w)
      else dispatch E c a panorama_output st w)"

text \<open>\<^verbatim>\<open>for i in range(len(panoids_rest))\<close>, left at the first exception.\<close>

fun loop ::
  "env \<Rightarrow> downloader \<Rightarrow> gsv_args \<Rightarrow> string \<Rightarrow> string list \<Rightarrow> nat list \<Rightarrow> counters \<Rightarrow> world
     \<Rightarrow> error option \<times> counters \<times> world"
where
  "loop E c a panorama_output panoids_rest [] st w = (None, st, w)"
| "loop E c a panorama_output panoids_rest (i # is) st w =
     (case loop_body E c a panorama_output panoids_rest i st w of
        (Some e, st', w') \<Rightarrow> (Some e, st', w')
      | (None, st', w') \<Rightarrow> loop E c a panorama_output panoids_rest is st' w')"

text \<open>The identifiers the scheduler works on: the CSV's identifiers after the dedup filter.\<close>

definition pending :: "env \<Rightarrow> downloader \<Rightarrow> world \<Rightarrow> error + string list" where
  "pending E c w =
     (case read_pids E c w of
        Inl e \<Rightarrow> Inl e
      | Inr panoids \<Rightarrow> Inr (check_already c w panoids))"

text \<open>
  The first part of \<^verbatim>\<open>download_gsv\<close>, up to the end of the loop: the panorama directory
  is made, the identifiers are read and filtered, and the loop runs from empty counters.
\<close>

definition download_phase ::
  "env \<Rightarrow> downloader \<Rightarrow> gsv_args \<Rightarrow> world \<Rightarrow> (error + counters) \<times> world"
where
  "download_phase E c a w =
     (let panorama_output = path_join (dir_output c) ''panorama''
      in case makedirs panorama_output (fs w) of
           Inl e \<Rightarrow> (Inl e, w)
         | Inr fs1 \<Rightarrow>
             (let w1 = w\<lparr>fs := fs1\<rparr>
              in case pending E c w1 of
                   Inl e \<Rightarrow> (Inl e, w1)
                 | Inr panoids_rest \<Rightarrow>
                     (case loop E c a panorama_output panoids_rest [0..<length panoids_rest]
                             \<lparr>task_pids = [], errors = 0, img_num = 0\<rparr> w1 of
                        (Some e, st, w2) \<Rightarrow> (Inl e, w2)
                      | (None, st, w2) \<Rightarrow> (Inr st, w2))))"

subsection \<open>The projection phase\<close>

text \<open>The constants of the \<^verbatim>\<open>perspective\<close> branch of \<^verbatim>\<open>run\<close>.\<close>

definition thetas :: "int list" where
  "thetas = [0, 90, 180, 270]"

definition FOV :: int where
  "FOV = 90"

definition aspects_v :: "rat \<times> rat" where
  "aspects_v = (9 / 4, 4)"

definition aspects :: "int \<times> int" where
  "aspects = (9, 16)"

text \<open>
  The body of the loop over \<^verbatim>\<open>thetas\<close>: the image asked of \<^verbatim>\<open>get_perspective\<close> (with
  \<open>phi = 0\<close>) and the path it is written to.
\<close>

definition perspective_output :: "image option \<Rightarrow> string \<Rightarrow> int \<Rightarrow> int \<Rightarrow> string \<times> image" where
  "perspective_output src path_output show_size theta =
     (let height = py_int (fst aspects_v * of_int show_size);
          width = py_int (snd aspects_v * of_int show_size);
          aspect_name = str_int (fst aspects) @ ''--'' @ str_int (snd aspects);
          img_raw = Perspective src FOV theta 0 height width;
          path_output_raw =
            py_replace path_output ''.png''
              (''_Direction_'' @ str_int theta @ ''_FOV_'' @ str_int FOV
                 @ ''_aspect_'' @ aspect_name @ ''_raw.png'')
      in (path_output_raw, img_raw))"

definition perspective_outputs :: "image option \<Rightarrow> string \<Rightarrow> int \<Rightarrow> (string \<times> image) list" where
  "perspective_outputs src path_output show_size =
     map (perspective_output src path_output show_size) thetas"

text \<open>The images of one task are written in order; the first write that raises ends the task.\<close>

fun write_all :: "env \<Rightarrow> (string \<times> image) list \<Rightarrow> filesystem \<Rightarrow> error option \<times> filesystem" where
  "write_all E [] fsys = (None, fsys)"
| "write_all E ((p, img) # rest) fsys =
     (case imwrite E p img fsys of
        Inl e \<Rightarrow> (Some e, fsys)
      | Inr fs1 \<Rightarrow> write_all E rest fs1)"

text \<open>
  \<^verbatim>\<open>run(path_input, path_output, show_size)\<close> for a given style. The transformer is taken to
  return for whatever \<^verbatim>\<open>cv2.imread\<close> gave it; \<open>img_transform\<close> is built once, from the source.
\<close>

definition run ::
  "env \<Rightarrow> string \<Rightarrow> string \<Rightarrow> string \<Rightarrow> int \<Rightarrow> filesystem \<Rightarrow> error option \<times> filesystem"
where
  "run E style path_input path_output show_size fsys =
     (let img_raw = imread fsys path_input
      in if style = ''fisheye'' then write_all E [(path_output, Fisheye img_raw)] fsys
         else if style = ''perspective''
         then write_all E (perspective_outputs img_raw path_output show_size) fsys
         else (None, fsys))"

definition process_image :: "string \<Rightarrow> string \<Rightarrow> string \<Rightarrow> string \<times> string" where
  "process_image dir_input dir_out name =
     (path_join dir_input name, path_join dir_out (py_replace name ''jpg'' ''png''))"

text \<open>
  The tasks submitted to the thread pool, run here one after the other in listing order.
  Every task runs to its end, also after another has raised: the pool is left only when
  all are done. \<^verbatim>\<open>future.result()\<close> then raises the exception of a task that failed, here
  the first in listing order.
\<close>

fun run_tasks ::
  "env \<Rightarrow> string \<Rightarrow> int \<Rightarrow> (string \<times> string) list \<Rightarrow> filesystem \<Rightarrow> error option \<times> filesystem"
where
  "run_tasks E style show_size [] fsys = (None, fsys)"
| "run_tasks E style show_size ((path_input, path_output) # tasks) fsys =
     (case run E style path_input path_output show_size fsys of
        (r, fs1) \<Rightarrow>
          (case run_tasks E style show_size tasks fs1 of
             (r', fs2) \<Rightarrow> ((case r of Some e \<Rightarrow> Some e | None \<Rightarrow> r'), fs2)))"

text \<open>\<^verbatim>\<open>_transform_image\<close>: one task per name listed in the panorama directory.\<close>

definition transform_image ::
  "env \<Rightarrow> downloader \<Rightarrow> string \<Rightarrow> int \<Rightarrow> filesystem \<Rightarrow> error option \<times> filesystem"
where
  "transform_image E c style show_size fsys =
     (let dir_input = path_join (dir_output c) ''panorama'';
          dir_out = path_join (dir_output c) style
      in case makedirs dir_out fsys of
           Inl e \<Rightarrow> (Some e, fsys)
         | Inr fs1 \<Rightarrow>
             run_tasks E style show_size
               (map (process_image dir_input dir_out) (listdir fs1 dir_input)) fs1)"

text \<open>\<^verbatim>\<open>for style in self.image_style: self._transform_image(style, show_size = 100)\<close>.\<close>

fun transform_styles ::
  "env \<Rightarrow> downloader \<Rightarrow> string list \<Rightarrow> filesystem \<Rightarrow> error option \<times> filesystem"
where
  "transform_styles E c [] fsys = (None, fsys)"
| "transform_styles E c (style # styles) fsys =
     (case transform_image E c style 100 fsys of
        (Some e, fs1) \<Rightarrow> (Some e, fs1)
      | (None, fs1) \<Rightarrow> transform_styles E c styles fs1)"

subsection \<open>\<^verbatim>\<open>download_gsv\<close>\<close>

text \<open>
  The whole method: the download phase, then the check of the styles, then the projection
  phase. The counters the method prints are returned.
\<close>

definition download_gsv ::
  "env \<Rightarrow> downloader \<Rightarrow> gsv_args \<Rightarrow> world \<Rightarrow> (error + counters) \<times> world"
where
  "download_gsv E c a w =
     (case download_phase E c a w of
        (Inl e, w1) \<Rightarrow> (Inl e, w1)
      | (Inr st, w1) \<Rightarrow>
          (if length (image_style c) > 0
           then (if \<not> list_all (\<lambda>style. style \<in> set [''perspective'', ''fisheye'']) (image_style c)
                 then (Inl ValueError, w1)
                 else (case transform_styles E c (image_style c) (fs w1) of
                         (Some e, fs2) \<Rightarrow> (Inl e, w1\<lparr>fs := fs2\<rparr>)
                       | (None, fs2) \<Rightarrow> (Inr st, w1\<lparr>fs := fs2\<rparr>)))
           else (Inr st, w1)))"

subsection \<open>The tile fetcher\<close>

text \<open>
  Modelled from the spec: \<^verbatim>\<open>ImageTool\<close> (\<^verbatim>\<open>streetscope.download.utils.imtool\<close>), which fetches
  and stitches the tiles, is not among the sources. Section 4.2 of the specification gives
  its contract: one request per grid coordinate with the assigned user agent; any failed
  request aborts the identifier with a \<open>FetchError\<close> and nothing is written; on full success
  the tiles are composited in row-major order and the raster is written to the panorama
  location \<^verbatim>\<open><identifier>.jpg\<close> before returning.
\<close>

type_synonym tile_service = "string \<Rightarrow> int \<Rightarrow> nat \<Rightarrow> nat \<Rightarrow> string \<Rightarrow> string option"

definition grid :: "int \<Rightarrow> int \<Rightarrow> (nat \<times> nat) list" where
  "grid h v = concat (map (\<lambda>row. map (\<lambda>col. (col, row)) [0..<nat h]) [0..<nat v])"

fun fetch_tiles :: "tile_service \<Rightarrow> string \<Rightarrow> int \<Rightarrow> string \<Rightarrow> (nat \<times> nat) list \<Rightarrow> string list option" where
  "fetch_tiles svc ident z ua [] = Some []"
| "fetch_tiles svc ident z ua ((x, y) # cs) =
     (case svc ident z x y ua of
        None \<Rightarrow> None
      | Some t \<Rightarrow>
          (case fetch_tiles svc ident z ua cs of
             None \<Rightarrow> None
           | Some ts \<Rightarrow> Some (t # ts)))"

definition panorama_path :: "string \<Rightarrow> string \<Rightarrow> string" where
  "panorama_path out ident = path_join out (ident @ ''.jpg'')"

definition write_panorama :: "string \<Rightarrow> image \<Rightarrow> filesystem \<Rightarrow> filesystem" where
  "write_panorama p pano fsys = AList.update p (File [Pixels pano]) fsys"

definition fetch_and_assemble ::
  "tile_service \<Rightarrow> string \<Rightarrow> string \<Rightarrow> int \<Rightarrow> int \<Rightarrow> int \<Rightarrow> string \<Rightarrow> bool \<Rightarrow> filesystem
     \<Rightarrow> (error + image) \<times> filesystem"
where
  "fetch_and_assemble svc out ident z h v ua crop fsys =
     (case fetch_tiles svc ident z ua (grid h v) of
        None \<Rightarrow> (Inl FetchError, fsys)
      | Some ts \<Rightarrow>
          (let pano = Stitched ident z h v crop ts
           in (Inr pano, write_panorama (panorama_path out ident) pano fsys)))"

subsection \<open>Observations and concrete scenarios\<close>

text \<open>The batches handed to \<^verbatim>\<open>dwl_multiple\<close>, read off the recorded calls.\<close>

fun dwl_calls :: "call list \<Rightarrow> dwl_args list" where
  "dwl_calls [] = []"
| "dwl_calls (Dwl args # cs) = args # dwl_calls cs"
| "dwl_calls (Sleep k # cs) = dwl_calls cs"

definition dispatched_batches :: "world \<Rightarrow> string list list" where
  "dispatched_batches w = map dwl_pids (dwl_calls (calls w))"

text \<open>
  Scenarios for concrete runs: the CSV's first column is \<open>pids\<close>; \<^verbatim>\<open>dwl_multiple\<close> raises on
  exactly the batches \<open>fails\<close> selects and writes nothing; the output root is \<^verbatim>\<open>out\<close>, the pool
  holds three agents, the arguments of \<^verbatim>\<open>download_gsv\<close> are its defaults, and the random
  source draws \<open>0, 1, 2, \<dots>\<close>. OpenCV encodes PNG and JPEG, and reads the extension, the
  part of the path after its last dot, without regard to case.
\<close>

definition char_lower :: "char \<Rightarrow> char" where
  "char_lower c =
     (let n = (of_char c :: nat) in if 65 \<le> n \<and> n \<le> 90 then char_of (n + 32) else c)"

definition scenario_encoder :: "string \<Rightarrow> bool" where
  "scenario_encoder p =
     (CHR ''.'' \<in> set p
      \<and> map char_lower (rev (takeWhile (\<lambda>c. c \<noteq> CHR ''.'') (rev p)))
          \<in> set [''png'', ''jpg'', ''jpeg''])"

definition scenario_env :: "string list \<Rightarrow> (string list \<Rightarrow> bool) \<Rightarrow> env" where
  "scenario_env pids fails =
     \<lparr>read_csv = (\<lambda>p fsys. Inr [(''panoid'', pids)]),
      dwl_multiple = (\<lambda>args fsys. (if fails (dwl_pids args) then Some FetchError else None, fsys)),
      has_encoder = scenario_encoder\<rparr>"

definition scenario_downloader :: "int \<Rightarrow> string list \<Rightarrow> string \<Rightarrow> downloader" where
  "scenario_downloader n styles lp =
     \<lparr>dir_output = ''out'', path_pid = Some ''out/pids.csv'', image_style = styles,
      log_path = lp, nthreads = n, user_agent = [''ua1'', ''ua2'', ''ua3'']\<rparr>"

definition default_args :: gsv_args where
  "default_args = \<lparr>zoom = 2, h_tiles = 4, v_tiles = 2, cropped = False, full = True\<rparr>"

definition scenario_world :: "filesystem \<Rightarrow> world" where
  "scenario_world fsys = \<lparr>fs = fsys, rng = (\<lambda>n. n), drawn = 0, calls = []\<rparr>"

definition abcde :: "string list" where
  "abcde = [''a'', ''b'', ''c'', ''d'', ''e'']"

text \<open>A tile service that serves every tile but one.\<close>

definition scenario_service :: "(nat \<times> nat) option \<Rightarrow> tile_service" where
  "scenario_service missing ident z x y ua =
     (if missing = Some (x, y) then None else Some (ident @ ''-'' @ str_nat x @ ''-'' @ str_nat y))"

text \<open>The output root with one image file in its panorama directory.\<close>

definition root_with_file :: "string \<Rightarrow> image \<Rightarrow> filesystem" where
  "root_with_file name img =
     [(''out'', Dir), (''out/panorama'', Dir), (''out/panorama/'' @ name, File [Pixels img])]"

text \<open>The output root after an earlier run that assembled the panorama of one identifier.\<close>

definition root_with_panorama :: "string \<Rightarrow> filesystem" where
  "root_with_panorama ident = root_with_file (ident @ ''.jpg'') (Stitched ident 2 4 2 False [])"

section \<open>Lemmas\<close>

subsection \<open>What the random source leaves alone\<close>

lemma sample_loop_frame:
  "sample_loop pool k w = (r, w') \<Longrightarrow> fs w' = fs w \<and> calls w' = calls w"
proof (induction k arbitrary: pool w r w')
  case 0
  then show ?case by simp
next
  case (Suc k)
  then show ?case
    by (auto simp: randbelow_def split: prod.splits)
qed

lemma random_sample_frame:
  "random_sample pool k w = (r, w') \<Longrightarrow> fs w' = fs w \<and> calls w' = calls w"
  by (auto simp: random_sample_def split: if_splits prod.splits dest: sample_loop_frame)

lemma randint_frame:
  "randint a b w = (r, w') \<Longrightarrow> fs w' = fs w \<and> calls w' = calls w"
  by (auto simp: randint_def randbelow_def split: prod.splits)

subsection \<open>First occurrences\<close>

lemma unique_from_set: "set (unique_from seen xs) = set xs - set seen"
  by (induction xs arbitrary: seen) auto

lemma unique_from_distinct: "distinct (unique_from seen xs)"
  by (induction xs arbitrary: seen) (auto simp: unique_from_set)

lemma unique_from_first:
  "unique_from seen xs
     = map (nth xs) (filter (\<lambda>i. xs ! i \<notin> set seen \<union> set (take i xs)) [0..<length xs])"
proof (induction xs arbitrary: seen)
  case Nil
  then show ?case by simp
next
  case (Cons x xs)
  have upt: "[0..<length (x # xs)] = 0 # map Suc [0..<length xs]"
    using upt_conv_Cons[of 0 "Suc (length xs)"] by (simp add: map_Suc_upt del: upt_Suc)
  show ?case
  proof (cases "x \<in> set seen")
    case True
    then have eq: "(\<lambda>i. xs ! i \<notin> set seen \<and> xs ! i \<noteq> x \<and> xs ! i \<notin> set (take i xs))
                 = (\<lambda>i. xs ! i \<notin> set seen \<and> xs ! i \<notin> set (take i xs))"
      by auto
    from True show ?thesis
      unfolding upt by (simp add: Cons.IH filter_map comp_def eq)
  next
    case False
    then show ?thesis
      unfolding upt by (simp add: Cons.IH filter_map comp_def conj_ac)
  qed
qed

lemma subseq_distinct: "subseq xs ys \<Longrightarrow> distinct ys \<Longrightarrow> distinct xs"
  using subseqs_distinctD[of xs ys] by simp

lemma pending_distinct: "pending E c w = Inr ps \<Longrightarrow> distinct ps"
  by (auto simp: pending_def read_pids_def check_already_def unique_def unique_from_distinct
        split: sum.splits list.splits)

subsection \<open>The batches of a run are cut out of the pending list, in order\<close>

lemma dwl_calls_append: "dwl_calls (xs @ ys) = dwl_calls xs @ dwl_calls ys"
  by (induction xs rule: dwl_calls.induct) auto

lemma dispatch_batches:
  assumes "dispatch E c a out st w = (r, st', w')"
  shows "(concat (dispatched_batches w') = concat (dispatched_batches w)
            \<or> concat (dispatched_batches w') = concat (dispatched_batches w) @ task_pids st)
       \<and> (r = None \<longrightarrow> task_pids st' = []
              \<and> concat (dispatched_batches w') = concat (dispatched_batches w) @ task_pids st)"
proof (cases "random_sample (user_agent c) (nthreads c) w")
  case (Pair res w1)
  then have fr: "calls w1 = calls w"
    by (auto dest: random_sample_frame)
  show ?thesis
  proof (cases res)
    case (Inl e)
    with Pair assms fr show ?thesis
      by (auto simp: dispatch_def dispatched_batches_def)
  next
    case (Inr UAs)
    obtain outcome fs3 where d: "dwl_multiple E (batch_args c a out st UAs) (fs w1) = (outcome, fs3)"
      by (cases "dwl_multiple E (batch_args c a out st UAs) (fs w1)") auto
    show ?thesis
    proof (cases outcome)
      case None
      with Pair Inr d assms fr show ?thesis
        by (auto simp: dispatch_def dispatched_batches_def Let_def dwl_calls_append batch_args_def)
    next
      case (Some e)
      obtain k w4 where r4:
        "randint 1 5 (w1\<lparr>calls := calls w1 @ [Dwl (batch_args c a out st UAs)], fs := fs3\<rparr>) = (k, w4)"
        by (cases "randint 1 5 (w1\<lparr>calls := calls w1 @ [Dwl (batch_args c a out st UAs)], fs := fs3\<rparr>)")
          auto
      then have c4: "calls w4 = calls w @ [Dwl (batch_args c a out st UAs)]"
        using fr by (auto dest: randint_frame)
      show ?thesis
        using Pair Inr d Some assms r4 c4
        by (auto simp: dispatch_def dispatched_batches_def Let_def dwl_calls_append batch_args_def
              split: if_splits sum.splits)
    qed
  qed
qed

lemma loop_body_batches:
  assumes "loop_body E c a out ps i st w = (r, st', w')"
      and "i < length ps"
      and "subseq (concat (dispatched_batches w) @ task_pids st) (take i ps)"
  shows "subseq (concat (dispatched_batches w')) (take (Suc i) ps)
       \<and> (r = None \<longrightarrow> subseq (concat (dispatched_batches w') @ task_pids st') (take (Suc i) ps))"
proof -
  have tk: "take (Suc i) ps = take i ps @ [ps ! i]"
    using assms(2) by (simp add: take_Suc_conv_app_nth)
  have full: "subseq (concat (dispatched_batches w) @ task_pids st) (take (Suc i) ps)"
    unfolding tk using assms(3) by (rule list_emb_prefix)
  have pre: "subseq (concat (dispatched_batches w)) (take (Suc i) ps)"
    using full by (meson list_emb_prefix subseq_order.order_refl subseq_order.trans)
  have app: "subseq (concat (dispatched_batches w) @ task_pids st @ [ps ! i]) (take (Suc i) ps)"
    unfolding tk using list_emb_append_mono[OF assms(3), of "[ps ! i]" "[ps ! i]"] by simp
  show ?thesis
  proof (cases "nthreads c = 0")
    case True
    with assms(1) pre show ?thesis by auto
  next
    case nz: False
    show ?thesis
    proof (cases "int i mod nthreads c \<noteq> 0 \<or> i = 0")
      case True
      with nz assms(1) pre app show ?thesis by auto
    next
      case False
      with nz assms(1) have d: "dispatch E c a out st w = (r, st', w')" by auto
      from dispatch_batches[OF d] pre full show ?thesis by auto
    qed
  qed
qed

lemma loop_batches:
  assumes "loop E c a out ps [i..<n] st w = (r, st', w')"
      and "n \<le> length ps"
      and "subseq (concat (dispatched_batches w) @ task_pids st) (take i ps)"
  shows "subseq (concat (dispatched_batches w')) ps"
  using assms
proof (induction "n - i" arbitrary: i st w)
  case 0
  then have "[i..<n] = []" by simp
  with "0.prems" have "w' = w" by simp
  moreover have "subseq (concat (dispatched_batches w)) (take i ps)"
    using "0.prems"(3) by (meson list_emb_prefix subseq_order.order_refl subseq_order.trans)
  moreover have "subseq (take i ps) ps"
    by (metis append_take_drop_id list_emb_prefix subseq_order.order_refl)
  ultimately show ?case
    using subseq_order.trans by blast
next
  case (Suc k)
  then have lt: "i < n" by simp
  then have upt: "[i..<n] = i # [Suc i..<n]" by (simp add: upt_conv_Cons)
  obtain r1 st1 w1 where b: "loop_body E c a out ps i st w = (r1, st1, w1)"
    by (cases "loop_body E c a out ps i st w") auto
  have il: "i < length ps" using lt Suc.prems(2) by simp
  note step = loop_body_batches[OF b il Suc.prems(3)]
  show ?case
  proof (cases r1)
    case None
    with Suc.prems(1) b upt have l: "loop E c a out ps [Suc i..<n] st1 w1 = (r, st', w')"
      by simp
    have k: "k = n - Suc i" using Suc.hyps(2) by simp
    from step None have "subseq (concat (dispatched_batches w1) @ task_pids st1) (take (Suc i) ps)"
      by simp
    from Suc.hyps(1)[OF k l Suc.prems(2) this] show ?thesis .
  next
    case (Some e)
    with Suc.prems(1) b upt have "w' = w1" by simp
    moreover have "subseq (take (Suc i) ps) ps"
      by (metis append_take_drop_id list_emb_prefix subseq_order.order_refl)
    ultimately show ?thesis
      using step subseq_order.trans by blast
  qed
qed

lemma download_phase_batches:
  assumes "calls w = []"
  shows "distinct (concat (dispatched_batches (snd (download_phase E c a w))))"
proof (cases "makedirs (path_join (dir_output c) ''panorama'') (fs w)")
  case (Inl e)
  with assms show ?thesis
    by (simp add: download_phase_def dispatched_batches_def)
next
  case (Inr fs1)
  show ?thesis
  proof (cases "pending E c (w\<lparr>fs := fs1\<rparr>)")
    case (Inl e)
    with Inr assms show ?thesis
      by (simp add: download_phase_def dispatched_batches_def)
  next
    case ps: (Inr ps)
    obtain r st w2 where l:
      "loop E c a (path_join (dir_output c) ''panorama'') ps [0..<length ps]
         \<lparr>task_pids = [], errors = 0, img_num = 0\<rparr> (w\<lparr>fs := fs1\<rparr>) = (r, st, w2)"
      using prod_cases3 by blast
    have "subseq (concat (dispatched_batches w2)) ps"
      using loop_batches[OF l] assms by (simp add: dispatched_batches_def)
    then have "distinct (concat (dispatched_batches w2))"
      using pending_distinct[OF ps] subseq_distinct by blast
    moreover have "snd (download_phase E c a w) = w2"
      using Inr ps l by (simp add: download_phase_def split: option.splits)
    ultimately show ?thesis by simp
  qed
qed

lemma download_gsv_batches:
  "dispatched_batches (snd (download_gsv E c a w)) = dispatched_batches (snd (download_phase E c a w))"
  by (simp add: download_gsv_def dispatched_batches_def split: prod.splits sum.splits option.splits)

subsection \<open>Tiles and the log\<close>

lemma fetch_tiles_None:
  "fetch_tiles svc ident z ua cs = None \<longleftrightarrow> (\<exists>(x, y) \<in> set cs. svc ident z x y ua = None)"
  by (induction cs) (auto split: option.splits)

lemma fetch_tiles_ok:
  "fetch_tiles svc ident z ua cs \<noteq> None \<longleftrightarrow> (\<forall>(x, y) \<in> set cs. svc ident z x y ua \<noteq> None)"
  by (induction cs) (auto split: option.splits)

lemma length_grid: "length (grid h v) = nat h * nat v"
  by (simp add: grid_def length_concat comp_def sum_list_triv)

lemma pieces_at_log_write:
  assumes "open_error fsys (log_path c) = None"
  shows "\<exists>fs'. log_write c pids fsys = Inr fs'
           \<and> pieces_at fs' (log_path c)
               = pieces_at fsys (log_path c) @ map (\<lambda>pid. Chars (pid @ [CHR 0x0A])) pids
           \<and> (\<forall>p. p \<noteq> log_path c \<longrightarrow> map_of fs' p = map_of fsys p)"
  using assms
  by (simp add: log_write_def pieces_at_def update_conv')

section \<open>The properties of the specification\<close>

subsection \<open>C1: the batches\<close>

text \<open>
  C1. The specification has the scheduler partition the identifiers into consecutive batches
  of exactly \<open>batch_size\<close>, each identifier in exactly one batch, so that \<open>[a,b,c,d,e]\<close> with
  batch size 2 is dispatched as \<open>[a,b]\<close> and then \<open>[c,d]\<close>. The code does otherwise: with
  every download succeeding, the batches dispatched are \<open>[a,b]\<close> and \<open>[d]\<close>. The branch that
  dispatches at index \<open>i\<close> never appends the identifier at \<open>i\<close>, so \<open>c\<close> and \<open>e\<close> are in no
  batch.
\<close>

theorem C1_batches_of_abcde:
  "dispatched_batches
     (snd (download_gsv (scenario_env abcde (\<lambda>b. False)) (scenario_downloader 2 [] [])
             default_args (scenario_world [])))
   = [[''a'', ''b''], [''d'']]"
  by code_simp

subsection \<open>C2: the counters\<close>

text \<open>
  C2. The specification has a batch of size \<open>k\<close> move the error counter (when a task fails)
  or the processed counter (when none does) by exactly \<open>k\<close>. The code moves them by
  \<^verbatim>\<open>self.nthreads\<close>: with \<open>[a,b,c,d,e]\<close>, two threads and a failure in the second batch, which
  is \<open>[d]\<close> and holds one identifier, the run ends with two errors and two processed.
\<close>

theorem C2_counters_of_abcde:
  "fst (download_gsv (scenario_env abcde (\<lambda>b. b = [''d''])) (scenario_downloader 2 [] [])
          default_args (scenario_world []))
     = Inr \<lparr>task_pids = [], errors = 2, img_num = 2\<rparr>
   \<and> dispatched_batches
       (snd (download_gsv (scenario_env abcde (\<lambda>b. b = [''d''])) (scenario_downloader 2 [] [])
               default_args (scenario_world [])))
     = [[''a'', ''b''], [''d'']]"
  by code_simp

subsection \<open>C3: the dedup filter\<close>

text \<open>
  C3. The specification has the dedup filter drop the identifiers whose panorama already
  exists, so that a re-run attempts only the others. The code's filter lists the output
  root, where it finds the directory \<^verbatim>\<open>panorama\<close> and not the files inside it: with the
  panorama of \<open>a\<close> on disk and the identifiers \<open>[a, b, c]\<close>, all three stay pending and
  \<open>a\<close> is dispatched again.
\<close>

theorem C3_pending_after_first_run:
  "pending (scenario_env [''a'', ''b'', ''c''] (\<lambda>b. False)) (scenario_downloader 2 [] [])
       (scenario_world (root_with_panorama ''a''))
     = Inr [''a'', ''b'', ''c'']
   \<and> dispatched_batches
       (snd (download_gsv (scenario_env [''a'', ''b'', ''c''] (\<lambda>b. False)) (scenario_downloader 2 [] [])
               default_args (scenario_world (root_with_panorama ''a''))))
     = [[''a'', ''b'']]"
  by code_simp

subsection \<open>C4: an unknown projection style\<close>

text \<open>
  C4, as the specification states it: a style outside \<open>{perspective, fisheye}\<close> raises before
  any network or file system work. It does not hold: with the style \<^verbatim>\<open>sketch\<close> the run
  raises \<open>ValueError\<close> only after both batches have been handed to \<^verbatim>\<open>dwl_multiple\<close> and the
  panorama directory has been made.
\<close>

theorem C4_counterexample:
  "fst (download_gsv (scenario_env abcde (\<lambda>b. False)) (scenario_downloader 2 [''sketch''] [])
          default_args (scenario_world [])) = Inl ValueError
   \<and> dispatched_batches
       (snd (download_gsv (scenario_env abcde (\<lambda>b. False)) (scenario_downloader 2 [''sketch''] [])
               default_args (scenario_world []))) = [[''a'', ''b''], [''d'']]
   \<and> fs (snd (download_gsv (scenario_env abcde (\<lambda>b. False)) (scenario_downloader 2 [''sketch''] [])
               default_args (scenario_world []))) \<noteq> fs (scenario_world [])"
  by code_simp

text \<open>
  C4, amended: when a style outside \<open>{perspective, fisheye}\<close> is configured, the styles are
  checked after the download phase and before any projection. Unless the download phase
  itself raised, the run raises \<open>ValueError\<close>, and the world it leaves is exactly the one the
  download phase left: nothing has been projected.
\<close>

theorem C4_error_after_download:
  assumes "image_style c \<noteq> []"
      and "\<not> list_all (\<lambda>style. style \<in> set [''perspective'', ''fisheye'']) (image_style c)"
  shows "download_gsv E c a w =
           (case download_phase E c a w of
              (Inl e, w1) \<Rightarrow> (Inl e, w1)
            | (Inr st, w1) \<Rightarrow> (Inl ValueError, w1))"
  using assms by (simp add: download_gsv_def split: prod.splits sum.splits)

text \<open>An instance: the styles \<^verbatim>\<open>fisheye\<close> and \<^verbatim>\<open>sketch\<close>, with a panorama on disk to project.\<close>

theorem C4_error_after_download_witness:
  "image_style (scenario_downloader 2 [''fisheye'', ''sketch''] []) \<noteq> []
   \<and> \<not> list_all (\<lambda>style. style \<in> set [''perspective'', ''fisheye''])
         (image_style (scenario_downloader 2 [''fisheye'', ''sketch''] []))
   \<and> fst (download_gsv (scenario_env abcde (\<lambda>b. False)) (scenario_downloader 2 [''fisheye'', ''sketch''] [])
            default_args (scenario_world (root_with_panorama ''z''))) = Inl ValueError
   \<and> snd (download_gsv (scenario_env abcde (\<lambda>b. False)) (scenario_downloader 2 [''fisheye'', ''sketch''] [])
            default_args (scenario_world (root_with_panorama ''z'')))
     = snd (download_phase (scenario_env abcde (\<lambda>b. False)) (scenario_downloader 2 [''fisheye'', ''sketch''] [])
            default_args (scenario_world (root_with_panorama ''z'')))"
proof -
  let ?c = "scenario_downloader 2 [''fisheye'', ''sketch''] []"
  let ?E = "scenario_env abcde (\<lambda>b. False)"
  let ?w = "scenario_world (root_with_panorama ''z'')"
  have h1: "image_style ?c \<noteq> []"
    by (simp add: scenario_downloader_def)
  have h2: "\<not> list_all (\<lambda>style. style \<in> set [''perspective'', ''fisheye'']) (image_style ?c)"
    by (simp add: scenario_downloader_def)
  have ok: "fst (download_phase ?E ?c default_args ?w) = Inr \<lparr>task_pids = [], errors = 0, img_num = 4\<rparr>"
    by code_simp
  show ?thesis
    using h1 h2 ok C4_error_after_download[OF h1 h2, of ?E default_args ?w]
    by (cases "download_phase ?E ?c default_args ?w") auto
qed

subsection \<open>C5: all-or-nothing assembly\<close>

text \<open>
  C5. For an identifier without a panorama on disk, the panorama exists after
  \<open>fetch_and_assemble\<close> if and only if every request of the grid succeeded; when a request
  fails the call raises \<open>FetchError\<close> and leaves the file system as it was, so no partial
  file exists either. The grid has \<open>h_tiles \<times> v_tiles\<close> coordinates.
\<close>

theorem C5_all_or_nothing:
  assumes "map_of fsys (panorama_path out ident) = None"
  shows "(map_of (snd (fetch_and_assemble svc out ident z h v ua crop fsys)) (panorama_path out ident) \<noteq> None
            \<longleftrightarrow> (\<forall>(x, y) \<in> set (grid h v). svc ident z x y ua \<noteq> None))
       \<and> ((\<exists>(x, y) \<in> set (grid h v). svc ident z x y ua = None)
            \<longrightarrow> fetch_and_assemble svc out ident z h v ua crop fsys = (Inl FetchError, fsys))
       \<and> length (grid h v) = nat h * nat v"
proof (intro conjI)
  show "map_of (snd (fetch_and_assemble svc out ident z h v ua crop fsys)) (panorama_path out ident) \<noteq> None
          \<longleftrightarrow> (\<forall>(x, y) \<in> set (grid h v). svc ident z x y ua \<noteq> None)"
    unfolding fetch_tiles_ok[symmetric] using assms
    by (simp add: fetch_and_assemble_def write_panorama_def update_conv' Let_def split: option.splits)
  show "(\<exists>(x, y) \<in> set (grid h v). svc ident z x y ua = None)
          \<longrightarrow> fetch_and_assemble svc out ident z h v ua crop fsys = (Inl FetchError, fsys)"
    unfolding fetch_tiles_None[symmetric]
    by (simp add: fetch_and_assemble_def)
  show "length (grid h v) = nat h * nat v"
    by (rule length_grid)
qed

text \<open>
  Two instances on a grid of two tiles: a service that serves both, and one that fails on
  the tile \<open>(1, 0)\<close>.
\<close>

theorem C5_all_or_nothing_witness:
  "map_of [] (panorama_path ''out/panorama'' ''a'') = None
   \<and> map_of (snd (fetch_and_assemble (scenario_service None) ''out/panorama'' ''a'' 2 2 1 ''ua1'' False []))
        (panorama_path ''out/panorama'' ''a'') \<noteq> None
   \<and> fetch_and_assemble (scenario_service (Some (1, 0))) ''out/panorama'' ''a'' 2 2 1 ''ua1'' False []
       = (Inl FetchError, [])
   \<and> length (grid 2 1) = 2"
proof -
  have h: "map_of ([] :: filesystem) (panorama_path ''out/panorama'' ''a'') = None"
    by simp
  have g: "grid 2 1 = [(0, 0), (1, 0)]"
    by code_simp
  show ?thesis
    using C5_all_or_nothing[OF h, of "scenario_service None" 2 2 1 "''ua1''" False]
      C5_all_or_nothing[OF h, of "scenario_service (Some (1, 0))" 2 2 1 "''ua1''" False]
    by (simp add: g scenario_service_def)
qed

subsection \<open>C6: four images for every source panorama\<close>


subsection \<open>C7: the failure log\<close>

text \<open>
  C7. Take a batch that is dispatched (the agents could be sampled), with either no log
  path configured (the empty string) or a log path that can be opened for appending: its
  directory exists and it is not a directory itself. When \<^verbatim>\<open>dwl_multiple\<close> returns, the
  scheduler writes nothing. When it raises and no log path is configured, the scheduler
  writes nothing. When it raises and a log path is configured, the log file keeps the
  pieces it had and gains one piece per identifier of the batch, in order, each the
  identifier followed by a newline; no other path changes.
\<close>

theorem C7_failure_log:
  assumes "fst (random_sample (user_agent c) (nthreads c) w) = Inr UAs"
      and "dwl_multiple E (batch_args c a out st UAs) (fs w) = (outcome, fs3)"
      and "log_path c = [] \<or> open_error fs3 (log_path c) = None"
  shows "(outcome = None \<longrightarrow> fs (snd (snd (dispatch E c a out st w))) = fs3)
       \<and> (outcome \<noteq> None \<and> log_path c = [] \<longrightarrow> fs (snd (snd (dispatch E c a out st w))) = fs3)
       \<and> (outcome \<noteq> None \<and> log_path c \<noteq> [] \<longrightarrow>
            pieces_at (fs (snd (snd (dispatch E c a out st w)))) (log_path c)
              = pieces_at fs3 (log_path c) @ map (\<lambda>pid. Chars (pid @ [CHR 0x0A])) (task_pids st)
            \<and> (\<forall>p. p \<noteq> log_path c \<longrightarrow>
                  map_of (fs (snd (snd (dispatch E c a out st w)))) p = map_of fs3 p))"
proof -
  obtain w1 where s: "random_sample (user_agent c) (nthreads c) w = (Inr UAs, w1)"
    using assms(1) by (cases "random_sample (user_agent c) (nthreads c) w") auto
  then have f1: "fs w1 = fs w"
    by (auto dest: random_sample_frame)
  show ?thesis
  proof (cases outcome)
    case None
    with s f1 assms(2) show ?thesis
      by (simp add: dispatch_def Let_def)
  next
    case (Some e)
    obtain k w4 where r4:
      "randint 1 5 (w1\<lparr>calls := calls w1 @ [Dwl (batch_args c a out st UAs)], fs := fs3\<rparr>) = (k, w4)"
      by (cases "randint 1 5 (w1\<lparr>calls := calls w1 @ [Dwl (batch_args c a out st UAs)], fs := fs3\<rparr>)")
        auto
    then have f4: "fs w4 = fs3"
      by (auto dest: randint_frame)
    show ?thesis
    proof (cases "log_path c = []")
      case True
      with s f1 assms(2) Some r4 f4 show ?thesis
        by (simp add: dispatch_def Let_def)
    next
      case False
      with assms(3) have op: "open_error fs3 (log_path c) = None"
        by simp
      obtain fs6 where l6: "log_write c (task_pids st) fs3 = Inr fs6"
        and p6: "pieces_at fs6 (log_path c)
                   = pieces_at fs3 (log_path c) @ map (\<lambda>pid. Chars (pid @ [CHR 0x0A])) (task_pids st)"
        and o6: "\<forall>p. p \<noteq> log_path c \<longrightarrow> map_of fs6 p = map_of fs3 p"
        using pieces_at_log_write[OF op] by blast
      show ?thesis
        using s f1 assms(2) Some False r4 f4 l6 p6 o6
        by (simp add: dispatch_def Let_def)
    qed
  qed
qed

text \<open>
  Three instances for the batch \<open>[a, b]\<close>. It fails with a log configured: the log, which
  held one line from an earlier run, holds three afterwards. It fails with no log
  configured, and it succeeds with a log configured: the file system stays as it was.
\<close>

theorem C7_failure_log_witness:
  "fst (random_sample (user_agent (scenario_downloader 2 [] ''out/failed.log''))
          (nthreads (scenario_downloader 2 [] ''out/failed.log''))
          (scenario_world [(''out'', Dir), (''out/failed.log'', File [Chars (''z'' @ [CHR 0x0A])])]))
     = Inr [''ua1'', ''ua2'']
   \<and> dwl_multiple (scenario_env abcde (\<lambda>b. True))
        (batch_args (scenario_downloader 2 [] ''out/failed.log'') default_args ''out/panorama''
           \<lparr>task_pids = [''a'', ''b''], errors = 0, img_num = 0\<rparr> [''ua1'', ''ua2''])
        (fs (scenario_world [(''out'', Dir), (''out/failed.log'', File [Chars (''z'' @ [CHR 0x0A])])]))
     = (Some FetchError, [(''out'', Dir), (''out/failed.log'', File [Chars (''z'' @ [CHR 0x0A])])])
   \<and> open_error [(''out'', Dir), (''out/failed.log'', File [Chars (''z'' @ [CHR 0x0A])])]
        (log_path (scenario_downloader 2 [] ''out/failed.log'')) = None
   \<and> pieces_at
        (fs (snd (snd (dispatch (scenario_env abcde (\<lambda>b. True))
                         (scenario_downloader 2 [] ''out/failed.log'') default_args ''out/panorama''
                         \<lparr>task_pids = [''a'', ''b''], errors = 0, img_num = 0\<rparr>
                         (scenario_world [(''out'', Dir), (''out/failed.log'', File [Chars (''z'' @ [CHR 0x0A])])])))))
        ''out/failed.log''
     = [Chars (''z'' @ [CHR 0x0A]), Chars (''a'' @ [CHR 0x0A]), Chars (''b'' @ [CHR 0x0A])]
   \<and> log_path (scenario_downloader 2 [] []) = []
   \<and> fs (snd (snd (dispatch (scenario_env abcde (\<lambda>b. True))
                      (scenario_downloader 2 [] []) default_args ''out/panorama''
                      \<lparr>task_pids = [''a'', ''b''], errors = 0, img_num = 0\<rparr>
                      (scenario_world [(''out'', Dir)]))))
     = [(''out'', Dir)]
   \<and> fs (snd (snd (dispatch (scenario_env abcde (\<lambda>b. False))
                      (scenario_downloader 2 [] ''out/failed.log'') default_args ''out/panorama''
                      \<lparr>task_pids = [''a'', ''b''], errors = 0, img_num = 0\<rparr>
                      (scenario_world [(''out'', Dir), (''out/failed.log'', File [Chars (''z'' @ [CHR 0x0A])])]))))
     = [(''out'', Dir), (''out/failed.log'', File [Chars (''z'' @ [CHR 0x0A])])]"
proof -
  let ?c = "scenario_downloader 2 [] ''out/failed.log''"
  let ?plain = "scenario_downloader 2 [] []"
  let ?fs = "[(''out'', Dir), (''out/failed.log'', File [Chars (''z'' @ [CHR 0x0A])])]"
  let ?bare = "[(''out'', Dir)] :: filesystem"
  let ?w = "scenario_world ?fs"
  let ?v = "scenario_world ?bare"
  let ?E = "scenario_env abcde (\<lambda>b. True)"
  let ?G = "scenario_env abcde (\<lambda>b. False)"
  let ?st = "\<lparr>task_pids = [''a'', ''b''], errors = 0, img_num = 0\<rparr>"
  have h1: "fst (random_sample (user_agent ?c) (nthreads ?c) ?w) = Inr [''ua1'', ''ua2'']"
    by code_simp
  have h2: "dwl_multiple ?E (batch_args ?c default_args ''out/panorama'' ?st [''ua1'', ''ua2'']) (fs ?w)
              = (Some FetchError, ?fs)"
    by (simp add: scenario_env_def scenario_world_def)
  have o3: "open_error ?fs (log_path ?c) = None"
    by code_simp
  then have h3: "log_path ?c = [] \<or> open_error ?fs (log_path ?c) = None"
    by simp
  have lp: "log_path ?c = ''out/failed.log''"
    by (simp add: scenario_downloader_def)
  have g1: "fst (random_sample (user_agent ?plain) (nthreads ?plain) ?v) = Inr [''ua1'', ''ua2'']"
    by code_simp
  have g2: "dwl_multiple ?E (batch_args ?plain default_args ''out/panorama'' ?st [''ua1'', ''ua2'']) (fs ?v)
              = (Some FetchError, ?bare)"
    by (simp add: scenario_env_def scenario_world_def)
  have lq: "log_path ?plain = []"
    by (simp add: scenario_downloader_def)
  then have g3: "log_path ?plain = [] \<or> open_error ?bare (log_path ?plain) = None"
    by simp
  have k2: "dwl_multiple ?G (batch_args ?c default_args ''out/panorama'' ?st [''ua1'', ''ua2'']) (fs ?w)
              = (None, ?fs)"
    by (simp add: scenario_env_def scenario_world_def)
  show ?thesis
    using h1 h2 o3 lq
      C7_failure_log[OF h1 h2 h3]
      C7_failure_log[OF g1 g2 g3]
      C7_failure_log[OF h1 k2 h3]
    by (simp add: lp pieces_at_def)
qed

subsection \<open>C8: the names of the perspective files\<close>

text \<open>
  C8. The specification names the perspective files of the panorama \<^verbatim>\<open><identifier>.jpg\<close>
  \<^verbatim>\<open><identifier>_Direction_<theta>_FOV_<fov>_aspect_<W>--<H>_raw.png\<close>. The code changes the
  extension by replacing every \<^verbatim>\<open>jpg\<close> of the file name: the files of the identifier
  \<^verbatim>\<open>ajpgb\<close> are named after \<^verbatim>\<open>apngb\<close>.
\<close>

theorem C8_names_of_ajpgb:
  "listdir
     (fs (snd (download_gsv (scenario_env [] (\<lambda>b. False)) (scenario_downloader 1 [''perspective''] [])
                 default_args (scenario_world (root_with_panorama ''ajpgb'')))))
     ''out/perspective''
   = [''apngb_Direction_0_FOV_90_aspect_9--16_raw.png'',
      ''apngb_Direction_90_FOV_90_aspect_9--16_raw.png'',
      ''apngb_Direction_180_FOV_90_aspect_9--16_raw.png'',
      ''apngb_Direction_270_FOV_90_aspect_9--16_raw.png'']"
  by code_simp

subsection \<open>C9: the agents of a batch\<close>

text \<open>
  C9. The specification has the agents sampled for a batch number one per identifier of the
  batch. The code samples \<^verbatim>\<open>self.nthreads\<close> agents for every batch: the second batch of
  \<open>[a,b,c,d,e]\<close> with two threads is \<open>[d]\<close> and receives two agents.
\<close>

theorem C9_agents_of_abcde:
  "map (\<lambda>args. (dwl_pids args, dwl_UAs args))
     (dwl_calls (calls (snd (download_gsv (scenario_env abcde (\<lambda>b. False))
                               (scenario_downloader 2 [] []) default_args (scenario_world [])))))
   = [([''a'', ''b''], [''ua1'', ''ua2'']), ([''d''], [''ua3'', ''ua2''])]"
  by code_simp

subsection \<open>C10: each identifier at most once\<close>

text \<open>
  C10. When the CSV parses to a frame whose first column is \<open>col\<close>, the identifiers read are
  \<open>unique col\<close>, and the list handed to the scheduler is the dedup filter applied to it.
  \<open>unique col\<close> has no duplicates, holds the values of \<open>col\<close>, and is \<open>col\<close> restricted to the
  positions where a value occurs for the first time, in order. In a run that starts with no
  recorded call, the batches dispatched hold no identifier twice, whatever the CSV holds.
\<close>

theorem C10_each_identifier_once:
  assumes "calls w = []"
      and "read_csv E (path_pid c) (fs w) = Inr ((name, col) # cols)"
  shows "read_pids E c w = Inr (unique col)
       \<and> pending E c w = Inr (check_already c w (unique col))
       \<and> distinct (unique col) \<and> set (unique col) = set col
       \<and> unique col = map (nth col) (filter (\<lambda>i. col ! i \<notin> set (take i col)) [0..<length col])
       \<and> distinct (concat (dispatched_batches (snd (download_gsv E c a w))))"
proof (intro conjI)
  show rp: "read_pids E c w = Inr (unique col)"
    using assms(2) by (simp add: read_pids_def)
  show "pending E c w = Inr (check_already c w (unique col))"
    using rp by (simp add: pending_def)
  show "distinct (unique col)"
    by (simp add: unique_def unique_from_distinct)
  show "set (unique col) = set col"
    by (simp add: unique_def unique_from_set)
  show "unique col = map (nth col) (filter (\<lambda>i. col ! i \<notin> set (take i col)) [0..<length col])"
    using unique_from_first[of "[]" col] by (simp add: unique_def)
  show "distinct (concat (dispatched_batches (snd (download_gsv E c a w))))"
    using download_phase_batches[OF assms(1)] by (simp add: download_gsv_batches)
qed

text \<open>An instance: a CSV that names \<open>a\<close> twice.\<close>

theorem C10_each_identifier_once_witness:
  "calls (scenario_world []) = []
   \<and> read_csv (scenario_env [''a'', ''b'', ''a'', ''c''] (\<lambda>b. False))
        (path_pid (scenario_downloader 2 [] [])) (fs (scenario_world []))
       = Inr ((''panoid'', [''a'', ''b'', ''a'', ''c'']) # [])
   \<and> read_pids (scenario_env [''a'', ''b'', ''a'', ''c''] (\<lambda>b. False)) (scenario_downloader 2 [] [])
        (scenario_world []) = Inr [''a'', ''b'', ''c'']
   \<and> distinct (concat (dispatched_batches
        (snd (download_gsv (scenario_env [''a'', ''b'', ''a'', ''c''] (\<lambda>b. False))
                (scenario_downloader 2 [] []) default_args (scenario_world [])))))"
proof -
  have h1: "calls (scenario_world []) = []"
    by (simp add: scenario_world_def)
  have h2: "read_csv (scenario_env [''a'', ''b'', ''a'', ''c''] (\<lambda>b. False))
        (path_pid (scenario_downloader 2 [] [])) (fs (scenario_world []))
       = Inr ((''panoid'', [''a'', ''b'', ''a'', ''c'']) # [])"
    by (simp add: scenario_env_def)
  have u: "unique [''a'', ''b'', ''a'', ''c''] = [''a'', ''b'', ''c'']"
    by (simp add: unique_def)
  show ?thesis
    using h1 h2 C10_each_identifier_once[OF h1 h2, of default_args] by (simp add: u)
qed

end
